theory Spec2Isabelle
  imports Main
begin

section \<open>Python values used by main.py\<close>

text \<open>
  Strings are lists of code points; every code point that main.py writes is below 256, so
  a \<^typ>\<open>char\<close> holds one (\<open>CHR 0xE3\<close> is the a with tilde of the 404 message).

  The dictionaries and lists that main.py builds, and the decoded JSON that the search
  client hands back, are values of \<open>json\<close>. A dictionary keeps its insertion order, as
  Python's does, so it is an association list. Numbers are integers here: the service
  never inspects a number of a stored document.
\<close>

datatype json =
    JNull
  | JBool bool
  | JInt int
  | JStr string
  | JList "json list"
  | JObj "(string \<times> json) list"

text \<open>
  A raised Python exception other than FastAPI's HTTPException: its class name and the
  text that \<open>str(e)\<close> gives.
\<close>

datatype py_exception = PyException string string

fun str_exc :: "py_exception \<Rightarrow> string" where
  "str_exc (PyException cls msg) = msg"

text \<open>What a handler can raise: \<open>HTTPException(status_code, detail)\<close>, or anything else.\<close>

datatype raised = HTTPException nat string | Exception py_exception

definition quote :: char where
  "quote = CHR 0x27"

definition KeyError :: "string \<Rightarrow> py_exception" where
  \<comment> \<open>\<open>str(KeyError(k))\<close> is the repr of the key.\<close>
  "KeyError k = PyException ''KeyError'' (quote # k @ [quote])"

definition TypeError :: "string \<Rightarrow> py_exception" where
  "TypeError msg = PyException ''TypeError'' msg"

definition ValueError :: "string \<Rightarrow> py_exception" where
  "ValueError msg = PyException ''ValueError'' msg"

fun type_name :: "json \<Rightarrow> string" where
  "type_name JNull = ''NoneType''"
| "type_name (JBool _) = ''bool''"
| "type_name (JInt _) = ''int''"
| "type_name (JStr _) = ''str''"
| "type_name (JList _) = ''list''"
| "type_name (JObj _) = ''dict''"

text \<open>\<open>v[k]\<close> for a string key \<open>k\<close>: only a dictionary that holds the key answers.\<close>

fun getitem :: "json \<Rightarrow> string \<Rightarrow> py_exception + json" where
  "getitem (JObj kvs) k =
     (case map_of kvs k of Some v \<Rightarrow> Inr v | None \<Rightarrow> Inl (KeyError k))"
| "getitem (JList _) k = Inl (TypeError ''list indices must be integers or slices, not str'')"
| "getitem (JStr _) k = Inl (TypeError (''string indices must be integers, not '' @ quote # ''str'' @ [quote]))"
| "getitem v k = Inl (TypeError (quote # type_name v @ quote # '' object is not subscriptable''))"

text \<open>
  \<open>for hit in v\<close>: a list yields its elements, a dictionary its keys, a string its
  characters; nothing else is iterable.
\<close>

fun iterate :: "json \<Rightarrow> py_exception + json list" where
  "iterate (JList xs) = Inr xs"
| "iterate (JObj kvs) = Inr (map (\<lambda>kv. JStr (fst kv)) kvs)"
| "iterate (JStr s) = Inr (map (\<lambda>c. JStr [c]) s)"
| "iterate v = Inl (TypeError (quote # type_name v @ quote # '' object is not iterable''))"

text \<open>
  The list comprehension \<open>[hit["_source"] for hit in hits]\<close>: the first failing
  subscript raises.
\<close>

fun sources_of :: "json list \<Rightarrow> py_exception + json list" where
  "sources_of [] = Inr []"
| "sources_of (hit # hits) =
     (case getitem hit ''_source'' of
        Inl e \<Rightarrow> Inl e
      | Inr src \<Rightarrow> (case sources_of hits of Inl e \<Rightarrow> Inl e | Inr srcs \<Rightarrow> Inr (src # srcs)))"

subsection \<open>datetime\<close>

text \<open>
  A \<open>datetime\<close> object: its calendar fields, always in range (the constructor checks
  them), and the offset of its fixed time zone in microseconds east of UTC, \<open>None\<close> for
  a naive value.
\<close>

record datetime =
  year :: nat
  month :: nat
  day :: nat
  hour :: nat
  minute :: nat
  second :: nat
  microsecond :: nat
  utcoffset :: "int option"

definition is_leap :: "nat \<Rightarrow> bool" where
  "is_leap y = (y mod 4 = 0 \<and> (y mod 100 \<noteq> 0 \<or> y mod 400 = 0))"

definition days_before_year :: "nat \<Rightarrow> int" where
  "days_before_year y = (let p = int y - 1 in p * 365 + p div 4 - p div 100 + p div 400)"

definition days_before_month :: "nat \<Rightarrow> nat \<Rightarrow> int" where
  "days_before_month y m =
     [0, 31, 59, 90, 120, 151, 181, 212, 243, 273, 304, 334] ! (m - 1)
       + (if 2 < m \<and> is_leap y then 1 else 0)"

definition ymd2ord :: "nat \<Rightarrow> nat \<Rightarrow> nat \<Rightarrow> int" where
  "ymd2ord y m d = days_before_year y + days_before_month y m + int d"

definition wall_micros :: "datetime \<Rightarrow> int" where
  \<comment> \<open>The fields as one count of microseconds since 0001-01-01T00:00:00, offset ignored.\<close>
  "wall_micros t =
     (((ymd2ord (year t) (month t) (day t) * 24 + int (hour t)) * 60 + int (minute t)) * 60
        + int (second t)) * 1000000 + int (microsecond t)"

fun cmp_fields :: "nat list \<Rightarrow> nat list \<Rightarrow> int" where
  "cmp_fields (x # xs) (y # ys) = (if x < y then - 1 else if y < x then 1 else cmp_fields xs ys)"
| "cmp_fields _ _ = 0"

definition field_tuple :: "datetime \<Rightarrow> nat list" where
  "field_tuple t = [year t, month t, day t, hour t, minute t, second t, microsecond t]"

text \<open>
  The ordering comparisons of \<open>datetime\<close>: equal offsets (both naive included) compare
  the fields; a naive value against an aware one raises TypeError; two different offsets
  compare the instants. The result is negative, zero or positive.
\<close>

definition cmp_datetime :: "datetime \<Rightarrow> datetime \<Rightarrow> py_exception + int" where
  "cmp_datetime a b =
     (if utcoffset a = utcoffset b then Inr (cmp_fields (field_tuple a) (field_tuple b))
      else case (utcoffset a, utcoffset b) of
        (Some oa, Some ob) \<Rightarrow> Inr (sgn ((wall_micros a - oa) - (wall_micros b - ob)))
      | _ \<Rightarrow> Inl (TypeError (''can'' @ quote # ''t compare offset-naive and offset-aware datetimes'')))"

definition datetime_gt :: "datetime \<Rightarrow> datetime \<Rightarrow> py_exception + bool" where
  \<comment> \<open>\<open>a > b\<close>\<close>
  "datetime_gt a b = (case cmp_datetime a b of Inl e \<Rightarrow> Inl e | Inr c \<Rightarrow> Inr (0 < c))"

definition datetime_le :: "datetime \<Rightarrow> datetime \<Rightarrow> py_exception + bool" where
  \<comment> \<open>\<open>a <= b\<close>\<close>
  "datetime_le a b = (case cmp_datetime a b of Inl e \<Rightarrow> Inl e | Inr c \<Rightarrow> Inr (c \<le> 0))"

definition digit :: "nat \<Rightarrow> char" where
  "digit n = ''0123456789'' ! (n mod 10)"

definition pad2 :: "nat \<Rightarrow> string" where
  \<comment> \<open>\<open>"%02d" % n\<close> for \<open>n < 100\<close>\<close>
  "pad2 n = [digit (n div 10), digit n]"

definition pad4 :: "nat \<Rightarrow> string" where
  \<comment> \<open>\<open>"%04d" % n\<close> for \<open>n < 10000\<close>\<close>
  "pad4 n = [digit (n div 1000), digit (n div 100), digit (n div 10), digit n]"

definition pad6 :: "nat \<Rightarrow> string" where
  \<comment> \<open>\<open>"%06d" % n\<close> for \<open>n < 1000000\<close>\<close>
  "pad6 n = [digit (n div 100000), digit (n div 10000), digit (n div 1000),
             digit (n div 100), digit (n div 10), digit n]"

definition format_offset :: "int option \<Rightarrow> string" where
  "format_offset off =
     (case off of
        None \<Rightarrow> []
      | Some v \<Rightarrow>
          (let a = nat \<bar>v\<bar>;
               hh = a div 3600000000;
               mm = a mod 3600000000 div 60000000;
               ss = a mod 60000000 div 1000000;
               us = a mod 1000000
           in (if v < 0 then ''-'' else ''+'') @ pad2 hh @ '':'' @ pad2 mm
              @ (if ss \<noteq> 0 \<or> us \<noteq> 0 then '':'' @ pad2 ss else [])
              @ (if us \<noteq> 0 then ''.'' @ pad6 us else [])))"

definition isoformat :: "datetime \<Rightarrow> string" where
  \<comment> \<open>\<open>t.isoformat()\<close>: the ISO 8601 text, with microseconds only when they are not zero.\<close>
  "isoformat t =
     pad4 (year t) @ ''-'' @ pad2 (month t) @ ''-'' @ pad2 (day t) @ ''T''
       @ pad2 (hour t) @ '':'' @ pad2 (minute t) @ '':'' @ pad2 (second t)
       @ (if microsecond t \<noteq> 0 then ''.'' @ pad6 (microsecond t) else [])
       @ format_offset (utcoffset t)"

section \<open>The search client\<close>

text \<open>
  \<open>OpenSearch(...)\<close> is a class of the client library. Its constructor is a parameter
  \<open>connect\<close> of the model: given the constructor's arguments it yields a handle, whose
  methods answer as the cluster does. \<open>ping\<close> answers a boolean; \<open>search\<close>, \<open>get\<close> and
  \<open>cluster.health\<close> return the decoded response or raise.
\<close>

record client_args =
  hosts :: "(string \<times> int) list"
  http_auth :: "string option \<times> string option"
  use_ssl :: bool
  verify_certs :: bool

record search_args =
  search_index :: string
  search_body :: json
  search_size :: int
  search_from :: int

record OpenSearch =
  ping :: bool
  search :: "search_args \<Rightarrow> py_exception + json"
  get :: "string \<Rightarrow> string \<Rightarrow> py_exception + json"
  cluster_health :: "py_exception + json"

text \<open>
  The values main.py reads from config.ini and from the environment when the module is
  loaded, already parsed.
\<close>

record settings =
  cfg_host :: string
  cfg_port :: int
  cfg_username :: "string option"
  cfg_password :: "string option"
  cfg_use_ssl :: bool
  cfg_verify_certs :: bool

text \<open>What a request does to the world outside the handler, in the order it happens.\<close>

datatype event =
    Constructed client_args
  | Pinged
  | Searched search_args
  | Fetched string string
  | Logged string

definition msg_no_connection :: string where
  "msg_no_connection =
     ''N'' @ [CHR 0xE3] @ ''o foi poss'' @ [CHR 0xED] @ ''vel conectar ao OpenSearch!''"

definition get_opensearch_client ::
  "(client_args \<Rightarrow> OpenSearch) \<Rightarrow> settings \<Rightarrow> event list \<times> (raised + OpenSearch)" where
  "get_opensearch_client connect cfg =
     (let args = \<lparr>hosts = [(cfg_host cfg, cfg_port cfg)],
                  http_auth = (cfg_username cfg, cfg_password cfg),
                  use_ssl = cfg_use_ssl cfg,
                  verify_certs = cfg_verify_certs cfg\<rparr>;
          client = connect args
      in if \<not> ping client
         then ([Constructed args, Pinged], Inl (Exception (PyException ''Exception'' msg_no_connection)))
         else ([Constructed args, Pinged], Inr client))"

section \<open>DeviationQueryParams\<close>

record DeviationQueryParams =
  camera_name :: "string option"
  event_type :: "string option"
  camera_type :: "string option"
  start_time :: "datetime option"
  end_time :: "datetime option"
  size_param :: int
  from_param :: int

text \<open>The values the validator of \<open>start_time\<close> and \<open>end_time\<close> can be handed.\<close>

datatype time_value = TimeNone | TimeStr string | TimeObj datetime

definition msg_invalid_date :: string where
  "msg_invalid_date =
     ''Formato de data inv'' @ [CHR 0xE1] @ ''lido. Use o formato ISO 8601 (YYYY-MM-DDTHH:MM:SS).''"

text \<open>
  \<open>datetime.fromisoformat\<close> is a function of the standard library whose grammar differs
  between Python versions; it is a parameter, \<open>None\<close> where it raises ValueError.
\<close>

definition parse_datetime ::
  "(string \<Rightarrow> datetime option) \<Rightarrow> time_value \<Rightarrow> py_exception + datetime option" where
  \<comment> \<open>A string is parsed; anything else, \<open>None\<close> or a \<open>datetime\<close>, is returned as it is.\<close>
  "parse_datetime fromisoformat v =
     (case v of
        TimeStr s \<Rightarrow>
          (case fromisoformat s of
             Some t \<Rightarrow> Inr (Some t)
           | None \<Rightarrow> Inl (ValueError msg_invalid_date))
      | TimeNone \<Rightarrow> Inr None
      | TimeObj t \<Rightarrow> Inr (Some t))"

text \<open>
  The validator runs before the field's own check (\<open>pre=True\<close>); a failure of a field is
  one entry, field name and message, of the ValidationError the constructor raises.
\<close>

definition validate_time ::
  "(string \<Rightarrow> datetime option) \<Rightarrow> string \<Rightarrow> time_value \<Rightarrow> (string \<times> string) list + datetime option" where
  "validate_time fromisoformat field v =
     (case parse_datetime fromisoformat v of
        Inl e \<Rightarrow> Inl [(field, str_exc e)]
      | Inr t \<Rightarrow> Inr t)"

definition newline :: char where
  "newline = CHR 0x0A"

definition ValidationError :: "(string \<times> string) list \<Rightarrow> py_exception" where
  \<comment> \<open>The report as pydantic 1.x prints it (\<open>validator\<close> is the 1.x decorator).\<close>
  "ValidationError errs =
     PyException ''ValidationError''
       ((if length errs = 1 then ''1 validation error'' else ''2 validation errors'')
          @ '' for DeviationQueryParams''
          @ concat (map (\<lambda>(field, msg). newline # field @ newline # ''  '' @ msg @ '' (type=value_error)'') errs))"

definition errors_of :: "('e list + 'a) \<Rightarrow> 'e list" where
  "errors_of r = (case r of Inl es \<Rightarrow> es | Inr _ \<Rightarrow> [])"

definition DeviationQueryParams_init ::
  "(string \<Rightarrow> datetime option) \<Rightarrow> string option \<Rightarrow> string option \<Rightarrow> string option \<Rightarrow>
   time_value \<Rightarrow> time_value \<Rightarrow> int \<Rightarrow> int \<Rightarrow> py_exception + DeviationQueryParams" where
  "DeviationQueryParams_init fromisoformat cn et ct st en sz fr =
     (let rs = validate_time fromisoformat ''start_time'' st;
          re = validate_time fromisoformat ''end_time'' en
      in case (rs, re) of
           (Inr s, Inr e) \<Rightarrow>
             Inr \<lparr>camera_name = cn, event_type = et, camera_type = ct,
                  start_time = s, end_time = e, size_param = sz, from_param = fr\<rparr>
         | _ \<Rightarrow> Inl (ValidationError (errors_of rs @ errors_of re)))"

definition time_value_of :: "datetime option \<Rightarrow> time_value" where
  "time_value_of v = (case v of None \<Rightarrow> TimeNone | Some t \<Rightarrow> TimeObj t)"

section \<open>The query document\<close>

definition term_clause :: "string \<Rightarrow> string \<Rightarrow> json" where
  "term_clause field v = JObj [(''term'', JObj [(field, JStr v)])]"

definition range_clause :: "(string \<times> json) list \<Rightarrow> json" where
  "range_clause bounds = JObj [(''range'', JObj [(''timestamp'', JObj bounds)])]"

text \<open>
  \<open>if query_params.camera_name: must.append(...)\<close>: \<open>None\<close> and the empty string are
  falsy.
\<close>

definition append_term :: "string \<Rightarrow> string option \<Rightarrow> json list \<Rightarrow> json list" where
  "append_term field v must =
     (case v of
        None \<Rightarrow> must
      | Some s \<Rightarrow> if s \<noteq> [] then must @ [term_clause field s] else must)"

definition term_filters :: "DeviationQueryParams \<Rightarrow> json list" where
  "term_filters p =
     append_term ''camera_type'' (camera_type p)
       (append_term ''event_type'' (event_type p)
         (append_term ''camera_name'' (camera_name p) []))"

definition msg_time_range :: string where
  "msg_time_range = ''start_time deve ser anterior a end_time''"

text \<open>
  The \<open>if\<close>/\<open>elif\<close> chain on the two times; a \<open>datetime\<close> is always truthy, so each test
  is a test for \<open>None\<close>. With both times the comparison comes first and may raise.
\<close>

definition time_filter :: "DeviationQueryParams \<Rightarrow> json list \<Rightarrow> raised + json list" where
  "time_filter p must =
     (case (start_time p, end_time p) of
        (Some s, Some e) \<Rightarrow>
          (case datetime_gt s e of
             Inl ex \<Rightarrow> Inl (Exception ex)
           | Inr True \<Rightarrow> Inl (HTTPException 400 msg_time_range)
           | Inr False \<Rightarrow>
               Inr (must @ [range_clause [(''gte'', JStr (isoformat s)), (''lte'', JStr (isoformat e))]]))
      | (Some s, None) \<Rightarrow> Inr (must @ [range_clause [(''gte'', JStr (isoformat s))]])
      | (None, Some e) \<Rightarrow> Inr (must @ [range_clause [(''lte'', JStr (isoformat e))]])
      | (None, None) \<Rightarrow> Inr must)"

definition bool_query :: "json list \<Rightarrow> json" where
  "bool_query must = JObj [(''query'', JObj [(''bool'', JObj [(''must'', JList must)])])]"

definition build_query :: "DeviationQueryParams \<Rightarrow> raised + json" where
  "build_query p =
     (case time_filter p (term_filters p) of
        Inl r \<Rightarrow> Inl r
      | Inr must \<Rightarrow> Inr (bool_query must))"

section \<open>The handlers\<close>

definition read_hits :: "json \<Rightarrow> py_exception + json" where
  \<comment> \<open>\<open>{"deviations": [hit["_source"] for hit in response["hits"]["hits"]]}\<close>\<close>
  "read_hits response =
     (case getitem response ''hits'' of
        Inl e \<Rightarrow> Inl e
      | Inr outer \<Rightarrow>
          (case getitem outer ''hits'' of
             Inl e \<Rightarrow> Inl e
           | Inr inner \<Rightarrow>
               (case iterate inner of
                  Inl e \<Rightarrow> Inl e
                | Inr hits \<Rightarrow>
                    (case sources_of hits of
                       Inl e \<Rightarrow> Inl e
                     | Inr deviations \<Rightarrow> Inr (JObj [(''deviations'', JList deviations)])))))"

definition get_deviations_try ::
  "(string \<Rightarrow> datetime option) \<Rightarrow> OpenSearch \<Rightarrow> string option \<Rightarrow> string option \<Rightarrow> string option \<Rightarrow>
   datetime option \<Rightarrow> datetime option \<Rightarrow> int \<Rightarrow> int \<Rightarrow> event list \<times> (raised + json)" where
  \<comment> \<open>The body of the \<open>try\<close>.\<close>
  "get_deviations_try fromisoformat client cn et ct st en sz fr =
     (case DeviationQueryParams_init fromisoformat cn et ct (time_value_of st) (time_value_of en) sz fr of
        Inl e \<Rightarrow> ([], Inl (Exception e))
      | Inr query_params \<Rightarrow>
          (case build_query query_params of
             Inl r \<Rightarrow> ([], Inl r)
           | Inr query \<Rightarrow>
               (let call = \<lparr>search_index = ''deviations'', search_body = query,
                              search_size = size_param query_params,
                              search_from = from_param query_params\<rparr>
                in case search client call of
                     Inl e \<Rightarrow> ([Searched call], Inl (Exception e))
                   | Inr response \<Rightarrow>
                       ([Searched call],
                        case read_hits response of
                          Inl e \<Rightarrow> Inl (Exception e)
                        | Inr result \<Rightarrow> Inr result))))"

definition msg_search_error :: "py_exception \<Rightarrow> string" where
  "msg_search_error e = ''Erro ao consultar OpenSearch: '' @ str_exc e"

definition get_deviations ::
  "(string \<Rightarrow> datetime option) \<Rightarrow> OpenSearch \<Rightarrow> string option \<Rightarrow> string option \<Rightarrow> string option \<Rightarrow>
   datetime option \<Rightarrow> datetime option \<Rightarrow> int \<Rightarrow> int \<Rightarrow> event list \<times> (raised + json)" where
  "get_deviations fromisoformat client cn et ct st en sz fr =
     (case get_deviations_try fromisoformat client cn et ct st en sz fr of
        (evs, Inl (HTTPException code detail)) \<Rightarrow> (evs, Inl (HTTPException code detail))
      | (evs, Inl (Exception e)) \<Rightarrow>
          (evs @ [Logged (msg_search_error e)], Inl (HTTPException 500 (msg_search_error e)))
      | (evs, Inr result) \<Rightarrow> (evs, Inr result))"

definition msg_not_found :: "py_exception \<Rightarrow> string" where
  "msg_not_found e = ''Desvio n'' @ [CHR 0xE3] @ ''o encontrado: '' @ str_exc e"

definition get_deviation_by_id :: "OpenSearch \<Rightarrow> string \<Rightarrow> event list \<times> (raised + json)" where
  "get_deviation_by_id client deviation_id =
     (let found =
        (case get client ''deviations'' deviation_id of
           Inl e \<Rightarrow> Inl e
         | Inr response \<Rightarrow> getitem response ''_source'')
      in case found of
           Inl e \<Rightarrow>
             ([Fetched ''deviations'' deviation_id, Logged (msg_not_found e)],
              Inl (HTTPException 404 (msg_not_found e)))
         | Inr record \<Rightarrow> ([Fetched ''deviations'' deviation_id], Inr record))"

definition msg_unavailable :: "py_exception \<Rightarrow> string" where
  "msg_unavailable e =
     ''Servi'' @ [CHR 0xE7] @ ''o indispon'' @ [CHR 0xED] @ ''vel: '' @ str_exc e"

definition app_version :: string where
  "app_version = ''1.0.0''"

definition health_check :: "OpenSearch \<Rightarrow> event list \<times> (raised + json)" where
  "health_check client =
     (let status =
        (case cluster_health client of
           Inl e \<Rightarrow> Inl e
         | Inr health \<Rightarrow> getitem health ''status'')
      in case status of
           Inl e \<Rightarrow> ([Logged (msg_unavailable e)], Inl (HTTPException 503 (msg_unavailable e)))
         | Inr colour \<Rightarrow>
             ([], Inr (JObj [(''status'', JStr ''healthy''), (''opensearch_status'', colour),
                             (''version'', JStr app_version)])))"

section \<open>The routes\<close>

text \<open>
  What the web framework does around a handler, as far as main.py asks for it in the
  handler's signature and decorator.

  A query parameter arrives as text or not at all; the framework coerces the text to the
  declared type. The coercion itself is the framework's: a request carries, for a typed
  parameter, either the value the text coerces to or the text that does not coerce.
\<close>

datatype 'a query_value = Absent | Uncoercible string | Coerced 'a

record deviations_query =
  q_camera_name :: "string option"
  q_event_type :: "string option"
  q_camera_type :: "string option"
  q_start_time :: "datetime query_value"
  q_end_time :: "datetime query_value"
  q_size :: "int query_value"
  q_from :: "int query_value"

text \<open>
  The outcome of a request. A request the framework refuses while it reads the parameters
  ends as its request-validation error, status 422, listing the place of each offending
  parameter; an exception that leaves a dependency or a handler, other than HTTPException,
  ends as status 500; HTTPException ends as its own status with its detail; a returned
  value ends as status 200.
\<close>

datatype http_response =
    JSONResponse nat json
  | RequestValidationError "string list list"
  | InternalServerError

fun status_code :: "http_response \<Rightarrow> nat" where
  "status_code (JSONResponse code content) = code"
| "status_code (RequestValidationError errs) = 422"
| "status_code InternalServerError = 500"

text \<open>
  The \<open>response_model\<close> of a route: \<open>Dict[str, Any]\<close> takes a dictionary,
  \<open>Dict[str, List[Dict[str, Any]]]\<close> a dictionary whose values are lists of dictionaries;
  a route that declares none takes every value. A returned value that fits is the content
  of the response as it is; one that does not fit is an error of the server.
\<close>

fun Dict_str_Any :: "json \<Rightarrow> bool" where
  "Dict_str_Any (JObj kvs) = True"
| "Dict_str_Any _ = False"

fun List_Dict_str_Any :: "json \<Rightarrow> bool" where
  "List_Dict_str_Any (JList xs) = list_all Dict_str_Any xs"
| "List_Dict_str_Any _ = False"

fun Dict_str_List_Dict_str_Any :: "json \<Rightarrow> bool" where
  "Dict_str_List_Dict_str_Any (JObj kvs) = list_all (\<lambda>kv. List_Dict_str_Any (snd kv)) kvs"
| "Dict_str_List_Dict_str_Any _ = False"

definition no_response_model :: "json \<Rightarrow> bool" where
  "no_response_model v = True"

definition respond :: "(json \<Rightarrow> bool) \<Rightarrow> raised + json \<Rightarrow> http_response" where
  "respond response_model r =
     (case r of
        Inr content \<Rightarrow> if response_model content then JSONResponse 200 content else InternalServerError
      | Inl (HTTPException code detail) \<Rightarrow> JSONResponse code (JObj [(''detail'', JStr detail)])
      | Inl (Exception e) \<Rightarrow> InternalServerError)"

text \<open>
  \<open>Query(default, ge=..., le=...)\<close> on an \<open>int\<close> parameter called \<open>name\<close> on the wire:
  the default when absent, the bounds that are declared, and no others.
\<close>

definition Query_int ::
  "string \<Rightarrow> int \<Rightarrow> int option \<Rightarrow> int option \<Rightarrow> int query_value \<Rightarrow> string list list + int" where
  "Query_int name dflt ge le v =
     (case v of
        Absent \<Rightarrow> Inr dflt
      | Uncoercible raw \<Rightarrow> Inl [[''query'', name]]
      | Coerced n \<Rightarrow>
          if (case ge of None \<Rightarrow> True | Some lo \<Rightarrow> lo \<le> n)
             \<and> (case le of None \<Rightarrow> True | Some hi \<Rightarrow> n \<le> hi)
          then Inr n
          else Inl [[''query'', name]])"

text \<open>\<open>Query(None)\<close> on an \<open>Optional[datetime]\<close> parameter.\<close>

definition Query_datetime :: "string \<Rightarrow> datetime query_value \<Rightarrow> string list list + datetime option" where
  "Query_datetime name v =
     (case v of
        Absent \<Rightarrow> Inr None
      | Uncoercible raw \<Rightarrow> Inl [[''query'', name]]
      | Coerced t \<Rightarrow> Inr (Some t))"

text \<open>
  \<open>GET /deviations\<close>. \<open>Depends(get_opensearch_client)\<close> makes the framework call
  \<open>get_opensearch_client\<close> for the request, before it reads the query parameters; the
  parameters are read in the order of the signature and every failure is reported; the
  handler runs only when none failed.
\<close>

definition route_deviations ::
  "(client_args \<Rightarrow> OpenSearch) \<Rightarrow> settings \<Rightarrow> (string \<Rightarrow> datetime option) \<Rightarrow> deviations_query \<Rightarrow>
   event list \<times> http_response" where
  "route_deviations connect cfg fromisoformat q =
     (case get_opensearch_client connect cfg of
        (evs, Inl r) \<Rightarrow> (evs, InternalServerError)
      | (evs, Inr client) \<Rightarrow>
          (let st = Query_datetime ''start_time'' (q_start_time q);
               en = Query_datetime ''end_time'' (q_end_time q);
               sz = Query_int ''size'' 10 (Some 1) (Some 100) (q_size q);
               fr = Query_int ''from'' 0 None None (q_from q)
           in case (st, en, sz, fr) of
                (Inr a_start, Inr a_end, Inr a_size, Inr a_from) \<Rightarrow>
                  (case get_deviations fromisoformat client
                          (q_camera_name q) (q_event_type q) (q_camera_type q)
                          a_start a_end a_size a_from of
                     (evs', r) \<Rightarrow> (evs @ evs', respond Dict_str_List_Dict_str_Any r))
              | _ \<Rightarrow>
                  (evs, RequestValidationError
                          (errors_of st @ errors_of en @ errors_of sz @ errors_of fr))))"

text \<open>\<open>GET /deviations/{deviation_id}\<close>: the path segment is a \<open>str\<close>, taken as it is.\<close>

definition route_deviation_by_id ::
  "(client_args \<Rightarrow> OpenSearch) \<Rightarrow> settings \<Rightarrow> string \<Rightarrow> event list \<times> http_response" where
  "route_deviation_by_id connect cfg deviation_id =
     (case get_opensearch_client connect cfg of
        (evs, Inl r) \<Rightarrow> (evs, InternalServerError)
      | (evs, Inr client) \<Rightarrow>
          (case get_deviation_by_id client deviation_id of
             (evs', r) \<Rightarrow> (evs @ evs', respond Dict_str_Any r)))"

definition route_health ::
  "(client_args \<Rightarrow> OpenSearch) \<Rightarrow> settings \<Rightarrow> event list \<times> http_response" where
  "route_health connect cfg =
     (case get_opensearch_client connect cfg of
        (evs, Inl r) \<Rightarrow> (evs, InternalServerError)
      | (evs, Inr client) \<Rightarrow>
          (case health_check client of
             (evs', r) \<Rightarrow> (evs @ evs', respond no_response_model r)))"

section \<open>The process\<close>

datatype request =
    GetDeviations deviations_query
  | GetDeviationById string
  | GetHealth

definition serve ::
  "(client_args \<Rightarrow> OpenSearch) \<Rightarrow> settings \<Rightarrow> (string \<Rightarrow> datetime option) \<Rightarrow> request \<Rightarrow>
   event list \<times> http_response" where
  "serve connect cfg fromisoformat req =
     (case req of
        GetDeviations q \<Rightarrow> route_deviations connect cfg fromisoformat q
      | GetDeviationById deviation_id \<Rightarrow> route_deviation_by_id connect cfg deviation_id
      | GetHealth \<Rightarrow> route_health connect cfg)"

text \<open>
  Loading the module reads the configuration, creates the application and defines the
  functions; it does not call \<open>get_opensearch_client\<close>. The events of a process are those
  of loading the module followed by those of the requests it serves, in order.
\<close>

definition module_load :: "event list" where
  "module_load = []"

fun serve_all ::
  "(client_args \<Rightarrow> OpenSearch) \<Rightarrow> settings \<Rightarrow> (string \<Rightarrow> datetime option) \<Rightarrow> request list \<Rightarrow>
   event list" where
  "serve_all connect cfg fromisoformat [] = []"
| "serve_all connect cfg fromisoformat (req # reqs) =
     fst (serve connect cfg fromisoformat req) @ serve_all connect cfg fromisoformat reqs"

definition process_events ::
  "(client_args \<Rightarrow> OpenSearch) \<Rightarrow> settings \<Rightarrow> (string \<Rightarrow> datetime option) \<Rightarrow> request list \<Rightarrow>
   event list" where
  "process_events connect cfg fromisoformat reqs =
     module_load @ serve_all connect cfg fromisoformat reqs"

fun is_construction :: "event \<Rightarrow> bool" where
  "is_construction (Constructed args) = True"
| "is_construction _ = False"

fun is_ping :: "event \<Rightarrow> bool" where
  "is_ping Pinged = True"
| "is_ping _ = False"

section \<open>Reading a query document\<close>

fun is_term :: "json \<Rightarrow> bool" where
  "is_term (JObj [(k, JObj [(field, JStr v)])]) = (k = ''term'')"
| "is_term _ = False"

fun is_range :: "json \<Rightarrow> bool" where
  "is_range (JObj [(k, JObj [(field, JObj bounds)])]) = (k = ''range'' \<and> field = ''timestamp'')"
| "is_range _ = False"

text \<open>
  The invariant of a Filter Set: when both times are present, \<open>start_time <= end_time\<close>
  evaluates to true.
\<close>

definition valid_filter_set :: "DeviationQueryParams \<Rightarrow> bool" where
  "valid_filter_set p =
     (case (start_time p, end_time p) of
        (Some s, Some e) \<Rightarrow> datetime_le s e = Inr True
      | _ \<Rightarrow> True)"

text \<open>What the chain on the two times appends when it appends.\<close>

definition range_part :: "DeviationQueryParams \<Rightarrow> json list" where
  "range_part p =
     (case (start_time p, end_time p) of
        (Some s, Some e) \<Rightarrow> [range_clause [(''gte'', JStr (isoformat s)), (''lte'', JStr (isoformat e))]]
      | (Some s, None) \<Rightarrow> [range_clause [(''gte'', JStr (isoformat s))]]
      | (None, Some e) \<Rightarrow> [range_clause [(''lte'', JStr (isoformat e))]]
      | (None, None) \<Rightarrow> [])"

section \<open>Example inputs\<close>

definition example_start :: datetime where
  "example_start = \<lparr>year = 2023, month = 10, day = 1, hour = 0, minute = 0, second = 0,
                      microsecond = 0, utcoffset = None\<rparr>"

definition example_end :: datetime where
  "example_end = \<lparr>year = 2023, month = 10, day = 1, hour = 23, minute = 59, second = 59,
                    microsecond = 0, utcoffset = None\<rparr>"

text \<open>
  Times that carry an offset, and a later time that carries none:
  2023-10-01T00:00:00+00:00, 2023-10-05T00:00:00+00:00 and 2023-10-05T00:00:00.
\<close>

definition example_aware_early :: datetime where
  "example_aware_early = \<lparr>year = 2023, month = 10, day = 1, hour = 0, minute = 0, second = 0,
                            microsecond = 0, utcoffset = Some 0\<rparr>"

definition example_aware_late :: datetime where
  "example_aware_late = \<lparr>year = 2023, month = 10, day = 5, hour = 0, minute = 0, second = 0,
                           microsecond = 0, utcoffset = Some 0\<rparr>"

definition example_naive_late :: datetime where
  "example_naive_late = \<lparr>year = 2023, month = 10, day = 5, hour = 0, minute = 0, second = 0,
                           microsecond = 0, utcoffset = None\<rparr>"


definition example_record :: json where
  "example_record = JObj [(''camera_name'', JStr ''camera_01''), (''event_type'', JStr ''motion_detected''),
                          (''timestamp'', JStr ''2023-10-01T12:34:56'')]"

text \<open>
  A cluster that answers: it holds one document, under the identifier 12345, and refuses
  a negative offset, as a search cluster does.
\<close>

definition example_client :: OpenSearch where
  "example_client =
     \<lparr>ping = True,
      search = (\<lambda>call. if search_from call < 0
                         then Inl (PyException ''RequestError'' ''[from] parameter cannot be negative'')
                         else Inr (JObj [(''hits'', JObj [(''hits'',
                                JList [JObj [(''_id'', JStr ''12345''), (''_source'', example_record)]])])])),
      get = (\<lambda>idx doc. if doc = ''12345''
                        then Inr (JObj [(''_id'', JStr doc), (''_source'', example_record)])
                        else Inl (PyException ''NotFoundError'' ''NotFoundError(404)'')),
      cluster_health = Inr (JObj [(''status'', JStr ''green'')])\<rparr>"

definition example_connect :: "client_args \<Rightarrow> OpenSearch" where
  "example_connect args = example_client"

definition example_settings :: settings where
  "example_settings = \<lparr>cfg_host = ''localhost'', cfg_port = 9200, cfg_username = Some ''admin'',
                         cfg_password = Some ''admin'', cfg_use_ssl = False, cfg_verify_certs = False\<rparr>"

text \<open>A parser that knows two texts and rejects every other.\<close>

definition example_fromisoformat :: "string \<Rightarrow> datetime option" where
  "example_fromisoformat = map_of [(''2023-10-01T00:00:00'', example_start),
                                   (''2023-10-01T23:59:59'', example_end)]"

definition empty_query :: deviations_query where
  "empty_query = \<lparr>q_camera_name = None, q_event_type = None, q_camera_type = None,
                    q_start_time = Absent, q_end_time = Absent, q_size = Absent, q_from = Absent\<rparr>"

section \<open>Properties of the query document\<close>

lemma le_not_gt: "datetime_le s e = Inr True \<Longrightarrow> datetime_gt s e = Inr False"
  by (auto simp: datetime_le_def datetime_gt_def split: sum.splits)

lemma is_term_term_clause [simp]: "is_term (term_clause field v)"
  by (simp add: term_clause_def)

lemma is_range_term_clause [simp]: "\<not> is_range (term_clause field v)"
  by (simp add: term_clause_def)

lemma is_range_range_clause [simp]: "is_range (range_clause bounds)"
  by (simp add: range_clause_def)

lemma is_term_range_clause [simp]: "\<not> is_term (range_clause bounds)"
  by (simp add: range_clause_def)





lemma time_filter_ok:
  "valid_filter_set p \<Longrightarrow> time_filter p must = Inr (must @ range_part p)"
  by (auto simp: valid_filter_set_def time_filter_def range_part_def le_not_gt split: option.splits)

lemma build_query_ok:
  "valid_filter_set p \<Longrightarrow> build_query p = Inr (bool_query (term_filters p @ range_part p))"
  by (simp add: build_query_def time_filter_ok)



lemma example_le: "datetime_le example_start example_end = Inr True"
  by (simp add: datetime_le_def cmp_datetime_def field_tuple_def example_start_def example_end_def)

lemma example_gt: "datetime_gt example_end example_start = Inr True"
  by (simp add: datetime_gt_def cmp_datetime_def field_tuple_def example_start_def example_end_def)







section \<open>Properties of the handlers\<close>

lemma init_typed:
  "DeviationQueryParams_init f cn et ct (time_value_of st) (time_value_of en) sz fr =
     Inr \<lparr>camera_name = cn, event_type = et, camera_type = ct, start_time = st, end_time = en,
          size_param = sz, from_param = fr\<rparr>"
  by (simp add: DeviationQueryParams_init_def validate_time_def parse_datetime_def time_value_of_def
        split: option.splits)

lemma get_deviations_rejected:
  assumes "build_query \<lparr>camera_name = cn, event_type = et, camera_type = ct, start_time = st,
             end_time = en, size_param = sz, from_param = fr\<rparr> = Inl (HTTPException code detail)"
  shows "get_deviations f client cn et ct st en sz fr = ([], Inl (HTTPException code detail))"
  using assms by (simp add: get_deviations_def get_deviations_try_def init_typed)

lemma get_deviations_dispatched:
  assumes "build_query \<lparr>camera_name = cn, event_type = et, camera_type = ct, start_time = st,
             end_time = en, size_param = sz, from_param = fr\<rparr> = Inr query"
  shows "\<exists>rest r. get_deviations f client cn et ct st en sz fr =
           (Searched \<lparr>search_index = ''deviations'', search_body = query,
                      search_size = sz, search_from = fr\<rparr> # rest, r)
         \<and> ((\<exists>content. r = Inr content) \<or> (\<exists>detail. r = Inl (HTTPException 500 detail)))"
  using assms
  by (auto simp: get_deviations_def get_deviations_try_def init_typed Let_def split: sum.splits)

lemma get_deviations_searched:
  assumes "Searched call \<in> set (fst (get_deviations f client cn et ct st en sz fr))"
  shows "search_index call = ''deviations'' \<and> search_size call = sz \<and> search_from call = fr"
  using assms
  by (auto simp: get_deviations_def get_deviations_try_def init_typed Let_def
           split: sum.splits raised.splits)

lemma get_deviations_events:
  "ev \<in> set (fst (get_deviations f client cn et ct st en sz fr)) \<Longrightarrow>
     \<not> is_construction ev \<and> \<not> is_ping ev"
  by (auto simp: get_deviations_def get_deviations_try_def init_typed Let_def
           split: sum.splits raised.splits)

lemma client_events:
  "fst (get_opensearch_client connect cfg) =
     [Constructed \<lparr>hosts = [(cfg_host cfg, cfg_port cfg)],
                   http_auth = (cfg_username cfg, cfg_password cfg),
                   use_ssl = cfg_use_ssl cfg, verify_certs = cfg_verify_certs cfg\<rparr>, Pinged]"
  by (simp add: get_opensearch_client_def Let_def)

lemma client_ok_events:
  "get_opensearch_client connect cfg = (evs, r) \<Longrightarrow>
     evs = [Constructed \<lparr>hosts = [(cfg_host cfg, cfg_port cfg)],
                   http_auth = (cfg_username cfg, cfg_password cfg),
                   use_ssl = cfg_use_ssl cfg, verify_certs = cfg_verify_certs cfg\<rparr>, Pinged]"
  using client_events [of connect cfg] by simp

lemma example_client_ok:
  "get_opensearch_client example_connect example_settings =
     ([Constructed \<lparr>hosts = [(''localhost'', 9200)], http_auth = (Some ''admin'', Some ''admin''),
                    use_ssl = False, verify_certs = False\<rparr>, Pinged], Inr example_client)"
  by (simp add: get_opensearch_client_def example_connect_def example_settings_def example_client_def)

lemma route_deviations_accepted:
  assumes "get_opensearch_client connect cfg = (evs, Inr client)"
    and "Query_datetime ''start_time'' (q_start_time q) = Inr st"
    and "Query_datetime ''end_time'' (q_end_time q) = Inr en"
    and "Query_int ''size'' 10 (Some 1) (Some 100) (q_size q) = Inr sz"
    and "Query_int ''from'' 0 None None (q_from q) = Inr fr"
  shows "route_deviations connect cfg f q =
     (evs @ fst (get_deviations f client (q_camera_name q) (q_event_type q) (q_camera_type q) st en sz fr),
      respond Dict_str_List_Dict_str_Any (snd (get_deviations f client (q_camera_name q) (q_event_type q) (q_camera_type q) st en sz fr)))"
  using assms by (simp add: route_deviations_def Let_def split: prod.splits)

lemma route_deviations_refused:
  assumes "get_opensearch_client connect cfg = (evs, Inr client)"
    and "errors_of (Query_datetime ''start_time'' (q_start_time q))
         @ errors_of (Query_datetime ''end_time'' (q_end_time q))
         @ errors_of (Query_int ''size'' 10 (Some 1) (Some 100) (q_size q))
         @ errors_of (Query_int ''from'' 0 None None (q_from q)) \<noteq> []"
  shows "route_deviations connect cfg f q =
     (evs, RequestValidationError
        (errors_of (Query_datetime ''start_time'' (q_start_time q))
         @ errors_of (Query_datetime ''end_time'' (q_end_time q))
         @ errors_of (Query_int ''size'' 10 (Some 1) (Some 100) (q_size q))
         @ errors_of (Query_int ''from'' 0 None None (q_from q))))"
  using assms by (auto simp: route_deviations_def Let_def errors_of_def split: sum.splits)

lemma route_deviations_cases:
  "(\<exists>st en sz fr.
           Query_datetime ''start_time'' (q_start_time q) = Inr st
         \<and> Query_datetime ''end_time'' (q_end_time q) = Inr en
         \<and> Query_int ''size'' 10 (Some 1) (Some 100) (q_size q) = Inr sz
         \<and> Query_int ''from'' 0 None None (q_from q) = Inr fr)
       \<or> errors_of (Query_datetime ''start_time'' (q_start_time q))
         @ errors_of (Query_datetime ''end_time'' (q_end_time q))
         @ errors_of (Query_int ''size'' 10 (Some 1) (Some 100) (q_size q))
         @ errors_of (Query_int ''from'' 0 None None (q_from q)) \<noteq> []"
  by (auto simp: errors_of_def Query_int_def Query_datetime_def split: sum.splits query_value.splits)

lemma mixed_times_end_as_500:
  assumes "utcoffset s = None" "utcoffset e = Some off"
  shows "\<exists>detail. get_deviations f client cn et ct (Some s) (Some e) sz fr
           = ([Logged detail], Inl (HTTPException 500 detail))"
  using assms
  by (simp add: get_deviations_def get_deviations_try_def init_typed build_query_def time_filter_def
        datetime_gt_def cmp_datetime_def)

text \<open>
  C3. The Filter Set with no field set compiles to the conjunction whose \<open>must\<close> list is
  empty. A request with no query parameter, once the client is obtained, dispatches one
  search on the index \<open>deviations\<close> whose body is that conjunction, with \<open>size\<close> 10 and
  \<open>from_\<close> 0 passed beside the body and not inside it. The request is not refused: it
  ends with status 200, or with status 500 when the backend fails.
\<close>

theorem C3_empty_filter_set:
  assumes "get_opensearch_client connect cfg = (evs, Inr client)"
  shows "build_query \<lparr>camera_name = None, event_type = None, camera_type = None,
                      start_time = None, end_time = None, size_param = 10, from_param = 0\<rparr>
           = Inr (JObj [(''query'', JObj [(''bool'', JObj [(''must'', JList [])])])])
       \<and> (\<exists>rest resp.
            route_deviations connect cfg fromisoformat
              \<lparr>q_camera_name = None, q_event_type = None, q_camera_type = None,
               q_start_time = Absent, q_end_time = Absent, q_size = Absent, q_from = Absent\<rparr>
              = (evs @ Searched \<lparr>search_index = ''deviations'',
                                 search_body = JObj [(''query'', JObj [(''bool'', JObj [(''must'', JList [])])])],
                                 search_size = 10, search_from = 0\<rparr> # rest, resp)
          \<and> (status_code resp = 200 \<or> status_code resp = 500))"
proof -
  let ?p = "\<lparr>camera_name = None, event_type = None, camera_type = None,
             start_time = None, end_time = None, size_param = 10, from_param = 0\<rparr>"
  let ?q = "\<lparr>q_camera_name = None, q_event_type = None, q_camera_type = None,
             q_start_time = Absent, q_end_time = Absent, q_size = Absent, q_from = Absent\<rparr>"
  let ?doc = "JObj [(''query'', JObj [(''bool'', JObj [(''must'', JList [])])])]"
  have b: "build_query ?p = Inr ?doc"
    by (simp add: build_query_def time_filter_def term_filters_def append_term_def bool_query_def)
  from get_deviations_dispatched [OF b, of fromisoformat client]
  obtain rest r where
    g: "get_deviations fromisoformat client None None None None None 10 0 =
          (Searched \<lparr>search_index = ''deviations'', search_body = ?doc,
                     search_size = 10, search_from = 0\<rparr> # rest, r)"
    and r: "(\<exists>content. r = Inr content) \<or> (\<exists>detail. r = Inl (HTTPException 500 detail))"
    by blast
  have route: "route_deviations connect cfg fromisoformat ?q =
      (evs @ Searched \<lparr>search_index = ''deviations'', search_body = ?doc,
                        search_size = 10, search_from = 0\<rparr> # rest, respond Dict_str_List_Dict_str_Any r)"
    using route_deviations_accepted [OF assms, of ?q None None 10 0 fromisoformat] g
    by (simp add: Query_datetime_def Query_int_def)
  have st: "status_code (respond Dict_str_List_Dict_str_Any r) = 200 \<or> status_code (respond Dict_str_List_Dict_str_Any r) = 500"
    using r by (auto simp: respond_def split: if_splits)
  show ?thesis using b route st by blast
qed

theorem C3_empty_filter_set_witness:
  "get_opensearch_client example_connect example_settings =
     ([Constructed \<lparr>hosts = [(''localhost'', 9200)], http_auth = (Some ''admin'', Some ''admin''),
                    use_ssl = False, verify_certs = False\<rparr>, Pinged], Inr example_client)
   \<and> (\<exists>rest resp.
        route_deviations example_connect example_settings example_fromisoformat empty_query
          = ([Constructed \<lparr>hosts = [(''localhost'', 9200)], http_auth = (Some ''admin'', Some ''admin''),
                           use_ssl = False, verify_certs = False\<rparr>, Pinged,
              Searched \<lparr>search_index = ''deviations'',
                        search_body = JObj [(''query'', JObj [(''bool'', JObj [(''must'', JList [])])])],
                        search_size = 10, search_from = 0\<rparr>] @ rest, resp)
      \<and> (status_code resp = 200 \<or> status_code resp = 500))"
  using C3_empty_filter_set [OF example_client_ok, of example_fromisoformat] example_client_ok
  by (simp add: empty_query_def)

lemma comparison_answers:
  assumes "(utcoffset s = None) = (utcoffset e = None)"
  shows "datetime_gt s e = Inr True \<or> datetime_le s e = Inr True"
proof -
  have "\<exists>c. cmp_datetime s e = Inr c"
    using assms by (cases "utcoffset s"; cases "utcoffset e") (auto simp: cmp_datetime_def)
  then obtain c where "cmp_datetime s e = Inr c" ..
  then show ?thesis
    by (auto simp: datetime_gt_def datetime_le_def)
qed

lemma comparison_raises:
  "(utcoffset s = None) \<noteq> (utcoffset e = None) \<Longrightarrow>
     datetime_gt s e = Inl (TypeError (''can'' @ quote # ''t compare offset-naive and offset-aware datetimes''))
     \<and> datetime_le s e = Inl (TypeError (''can'' @ quote # ''t compare offset-naive and offset-aware datetimes''))"
  by (cases "utcoffset s"; cases "utcoffset e")
     (auto simp: datetime_gt_def datetime_le_def cmp_datetime_def)

text \<open>
  Two times that compare, both with an offset or both without. When
  \<open>start_time > end_time\<close> evaluates to true, the query does not compile: the handler
  raises HTTPException 400 with the detail "start_time deve ser anterior a end_time" and
  has dispatched nothing, and the response has status 400. When \<open>start_time <= end_time\<close>
  evaluates to true, the handler dispatches the search and the response does not have
  status 400.
\<close>

theorem time_range_when_comparable:
  "(datetime_gt s e = Inr True \<longrightarrow>
      build_query \<lparr>camera_name = cn, event_type = et, camera_type = ct, start_time = Some s,
                   end_time = Some e, size_param = sz, from_param = fr\<rparr>
        = Inl (HTTPException 400 ''start_time deve ser anterior a end_time'')
    \<and> get_deviations f client cn et ct (Some s) (Some e) sz fr
        = ([], Inl (HTTPException 400 ''start_time deve ser anterior a end_time''))
    \<and> status_code (respond Dict_str_List_Dict_str_Any (snd (get_deviations f client cn et ct (Some s) (Some e) sz fr))) = 400)
   \<and> (datetime_le s e = Inr True \<longrightarrow>
      (\<exists>call rest r. get_deviations f client cn et ct (Some s) (Some e) sz fr = (Searched call # rest, r)
         \<and> status_code (respond Dict_str_List_Dict_str_Any r) \<noteq> 400))"
proof (intro conjI impI)
  assume gt: "datetime_gt s e = Inr True"
  show b: "build_query \<lparr>camera_name = cn, event_type = et, camera_type = ct, start_time = Some s,
                   end_time = Some e, size_param = sz, from_param = fr\<rparr>
        = Inl (HTTPException 400 ''start_time deve ser anterior a end_time'')"
    using gt by (simp add: build_query_def time_filter_def msg_time_range_def)
  show g: "get_deviations f client cn et ct (Some s) (Some e) sz fr
        = ([], Inl (HTTPException 400 ''start_time deve ser anterior a end_time''))"
    by (rule get_deviations_rejected [OF b])
  show "status_code (respond Dict_str_List_Dict_str_Any (snd (get_deviations f client cn et ct (Some s) (Some e) sz fr))) = 400"
    by (simp add: g respond_def)
next
  assume le: "datetime_le s e = Inr True"
  let ?p = "\<lparr>camera_name = cn, event_type = et, camera_type = ct, start_time = Some s,
             end_time = Some e, size_param = sz, from_param = fr\<rparr>"
  have "valid_filter_set ?p"
    using le by (simp add: valid_filter_set_def)
  from build_query_ok [OF this] obtain query where b: "build_query ?p = Inr query"
    by blast
  from get_deviations_dispatched [OF b, of f client]
  obtain rest r where
    g: "get_deviations f client cn et ct (Some s) (Some e) sz fr =
          (Searched \<lparr>search_index = ''deviations'', search_body = query,
                     search_size = sz, search_from = fr\<rparr> # rest, r)"
    and r: "(\<exists>content. r = Inr content) \<or> (\<exists>detail. r = Inl (HTTPException 500 detail))"
    by blast
  have "status_code (respond Dict_str_List_Dict_str_Any r) \<noteq> 400"
    using r by (auto simp: respond_def split: if_splits)
  with g show "\<exists>call rest r. get_deviations f client cn et ct (Some s) (Some e) sz fr = (Searched call # rest, r)
         \<and> status_code (respond Dict_str_List_Dict_str_Any r) \<noteq> 400"
    by blast
qed

theorem time_range_when_comparable_example:
  "datetime_gt example_end example_start = Inr True
   \<and> get_deviations example_fromisoformat example_client None None None
        (Some example_end) (Some example_start) 10 0
        = ([], Inl (HTTPException 400 ''start_time deve ser anterior a end_time''))
   \<and> datetime_le example_start example_end = Inr True
   \<and> (\<exists>call rest r. get_deviations example_fromisoformat example_client None None None
          (Some example_start) (Some example_end) 10 0 = (Searched call # rest, r)
        \<and> status_code (respond Dict_str_List_Dict_str_Any r) \<noteq> 400)"
  using time_range_when_comparable [of example_end example_start None None None 10 0 example_fromisoformat example_client]
        time_range_when_comparable [of example_start example_end None None None 10 0 example_fromisoformat example_client]
        example_gt example_le
  by simp

text \<open>
  C4, where the code departs from it. A start that carries no offset and an end that
  carries one, or the reverse, do not compare: \<open>start_time > end_time\<close> raises TypeError,
  which the handler reports as status 500 under the detail of a failed search, having
  dispatched no search. The start 2023-10-05T00:00:00 is after the end
  2023-10-01T00:00:00+00:00 and the answer is 500, not 400; the start
  2023-10-01T00:00:00 is before the end 2023-10-05T00:00:00+00:00 and the request fails
  all the same.
\<close>

theorem C4_mixed_offsets_end_as_500:
  "route_deviations example_connect example_settings example_fromisoformat
     (empty_query\<lparr>q_start_time := Coerced example_naive_late,
                    q_end_time := Coerced example_aware_early\<rparr>)
   = ([Constructed \<lparr>hosts = [(''localhost'', 9200)], http_auth = (Some ''admin'', Some ''admin''),
                    use_ssl = False, verify_certs = False\<rparr>, Pinged,
       Logged (''Erro ao consultar OpenSearch: can'' @ CHR 0x27
                 # ''t compare offset-naive and offset-aware datetimes'')],
      JSONResponse 500
        (JObj [(''detail'', JStr (''Erro ao consultar OpenSearch: can'' @ CHR 0x27
                                   # ''t compare offset-naive and offset-aware datetimes''))]))
   \<and> route_deviations example_connect example_settings example_fromisoformat
     (empty_query\<lparr>q_start_time := Coerced example_start,
                    q_end_time := Coerced example_aware_late\<rparr>)
   = ([Constructed \<lparr>hosts = [(''localhost'', 9200)], http_auth = (Some ''admin'', Some ''admin''),
                    use_ssl = False, verify_certs = False\<rparr>, Pinged,
       Logged (''Erro ao consultar OpenSearch: can'' @ CHR 0x27
                 # ''t compare offset-naive and offset-aware datetimes'')],
      JSONResponse 500
        (JObj [(''detail'', JStr (''Erro ao consultar OpenSearch: can'' @ CHR 0x27
                                   # ''t compare offset-naive and offset-aware datetimes''))]))"
  by (simp add: route_deviations_def example_client_ok empty_query_def Query_int_def
        Query_datetime_def get_deviations_def get_deviations_try_def init_typed build_query_def
        time_filter_def datetime_gt_def cmp_datetime_def TypeError_def quote_def
        example_naive_late_def example_aware_early_def example_aware_late_def example_start_def
        msg_search_error_def respond_def)

text \<open>
  C8. For every identifier the handler dispatches the lookup of that identifier in the
  index \<open>deviations\<close>, with no check before it. When the lookup returns a response that
  holds \<open>_source\<close>, the handler returns that value unchanged, and the value being a
  dictionary, as a stored document is, the response is 200 with it as content. When the
  lookup raises, whatever the exception, or the response holds no \<open>_source\<close>, the
  handler raises HTTPException 404. The handler ends in no other way.
\<close>

theorem C8_get_by_id:
  "(\<exists>rest. fst (get_deviation_by_id client deviation_id) = Fetched ''deviations'' deviation_id # rest)
   \<and> (get client ''deviations'' deviation_id = Inr response \<and> getitem response ''_source'' = Inr doc \<longrightarrow>
        get_deviation_by_id client deviation_id = ([Fetched ''deviations'' deviation_id], Inr doc)
        \<and> (Dict_str_Any doc \<longrightarrow>
             respond Dict_str_Any (snd (get_deviation_by_id client deviation_id)) = JSONResponse 200 doc))
   \<and> (get client ''deviations'' deviation_id = Inl e
        \<or> (get client ''deviations'' deviation_id = Inr response \<and> getitem response ''_source'' = Inl e) \<longrightarrow>
        (\<exists>detail. snd (get_deviation_by_id client deviation_id) = Inl (HTTPException 404 detail))
        \<and> status_code (respond Dict_str_Any (snd (get_deviation_by_id client deviation_id))) = 404)
   \<and> ((\<exists>doc. snd (get_deviation_by_id client deviation_id) = Inr doc)
        \<or> (\<exists>detail. snd (get_deviation_by_id client deviation_id) = Inl (HTTPException 404 detail)))"
  by (auto simp: get_deviation_by_id_def respond_def Let_def split: sum.splits)

theorem C8_get_by_id_witness:
  "get example_client ''deviations'' ''12345'' = Inr (JObj [(''_id'', JStr ''12345''), (''_source'', example_record)])
   \<and> getitem (JObj [(''_id'', JStr ''12345''), (''_source'', example_record)]) ''_source'' = Inr example_record
   \<and> get_deviation_by_id example_client ''12345'' = ([Fetched ''deviations'' ''12345''], Inr example_record)
   \<and> Dict_str_Any example_record
   \<and> respond Dict_str_Any (snd (get_deviation_by_id example_client ''12345'')) = JSONResponse 200 example_record
   \<and> get example_client ''deviations'' ''unknown-id'' = Inl (PyException ''NotFoundError'' ''NotFoundError(404)'')
   \<and> status_code (respond Dict_str_Any (snd (get_deviation_by_id example_client ''unknown-id''))) = 404"
proof -
  have d: "Dict_str_Any example_record"
    by (simp add: example_record_def)
  have g1: "get example_client ''deviations'' ''12345''
              = Inr (JObj [(''_id'', JStr ''12345''), (''_source'', example_record)])"
    by (simp add: example_client_def)
  have g2: "get example_client ''deviations'' ''unknown-id''
              = Inl (PyException ''NotFoundError'' ''NotFoundError(404)'')"
    by (simp add: example_client_def)
  have k: "getitem (JObj [(''_id'', JStr ''12345''), (''_source'', example_record)]) ''_source''
              = Inr example_record"
    by simp
  have a: "get_deviation_by_id example_client ''12345'' = ([Fetched ''deviations'' ''12345''], Inr example_record)
           \<and> respond Dict_str_Any (snd (get_deviation_by_id example_client ''12345''))
               = JSONResponse 200 example_record"
    using d g1 k
      C8_get_by_id [of example_client "''12345''" "JObj [(''_id'', JStr ''12345''), (''_source'', example_record)]"
        example_record]
    by blast
  have b: "status_code (respond Dict_str_Any (snd (get_deviation_by_id example_client ''unknown-id''))) = 404"
    using g2
      C8_get_by_id [of example_client "''unknown-id''" _ _ "PyException ''NotFoundError'' ''NotFoundError(404)''"]
    by blast
  show ?thesis
    using d g1 g2 k a b by blast
qed

text \<open>
  C10. When the lookup by identifier raises \<open>e\<close>, the response is 404 and its detail is
  the handler's fixed prefix, which ends in "encontrado: ", followed by \<open>str(e)\<close>. The list
  handler does the same with status 500: when the search raises \<open>e\<close>, the detail is
  "Erro ao consultar OpenSearch: " followed by \<open>str(e)\<close>.
\<close>

theorem C10_detail_exposes_cause:
  "(get client ''deviations'' deviation_id = Inl e \<longrightarrow>
      respond Dict_str_Any (snd (get_deviation_by_id client deviation_id))
        = JSONResponse 404 (JObj [(''detail'', JStr (''Desvio n'' @ [CHR 0xE3] @ ''o encontrado: '' @ str_exc e))]))
   \<and> (build_query \<lparr>camera_name = cn, event_type = et, camera_type = ct, start_time = st,
                    end_time = en, size_param = sz, from_param = fr\<rparr> = Inr query
       \<and> search client \<lparr>search_index = ''deviations'', search_body = query,
                         search_size = sz, search_from = fr\<rparr> = Inl e \<longrightarrow>
      respond Dict_str_List_Dict_str_Any (snd (get_deviations f client cn et ct st en sz fr))
        = JSONResponse 500 (JObj [(''detail'', JStr (''Erro ao consultar OpenSearch: '' @ str_exc e))]))"
  by (auto simp: get_deviation_by_id_def get_deviations_def get_deviations_try_def init_typed
        respond_def msg_not_found_def msg_search_error_def Let_def split: sum.splits)

theorem C10_detail_exposes_cause_witness:
  "get example_client ''deviations'' ''unknown-id'' = Inl (PyException ''NotFoundError'' ''NotFoundError(404)'')
   \<and> respond Dict_str_Any (snd (get_deviation_by_id example_client ''unknown-id''))
        = JSONResponse 404 (JObj [(''detail'', JStr (''Desvio n'' @ [CHR 0xE3] @ ''o encontrado: NotFoundError(404)''))])
   \<and> build_query \<lparr>camera_name = None, event_type = None, camera_type = None, start_time = None,
                    end_time = None, size_param = 10, from_param = - 1\<rparr>
        = Inr (JObj [(''query'', JObj [(''bool'', JObj [(''must'', JList [])])])])
   \<and> respond Dict_str_List_Dict_str_Any (snd (get_deviations example_fromisoformat example_client None None None None None 10 (- 1)))
        = JSONResponse 500 (JObj [(''detail'',
            JStr ''Erro ao consultar OpenSearch: [from] parameter cannot be negative'')])"
proof -
  have g: "get example_client ''deviations'' ''unknown-id'' = Inl (PyException ''NotFoundError'' ''NotFoundError(404)'')"
    by (simp add: example_client_def)
  have b: "build_query \<lparr>camera_name = None, event_type = None, camera_type = None, start_time = None,
                    end_time = None, size_param = 10, from_param = - 1\<rparr>
        = Inr (JObj [(''query'', JObj [(''bool'', JObj [(''must'', JList [])])])])"
    by (simp add: build_query_def time_filter_def term_filters_def append_term_def bool_query_def)
  have s: "search example_client \<lparr>search_index = ''deviations'',
              search_body = JObj [(''query'', JObj [(''bool'', JObj [(''must'', JList [])])])],
              search_size = 10, search_from = - 1\<rparr>
        = Inl (PyException ''RequestError'' ''[from] parameter cannot be negative'')"
    by (simp add: example_client_def)
  show ?thesis
    using g b s
      C10_detail_exposes_cause [of example_client "''unknown-id''" "PyException ''NotFoundError'' ''NotFoundError(404)''"]
      C10_detail_exposes_cause [of example_client _ "PyException ''RequestError'' ''[from] parameter cannot be negative''"
          None None None None None 10 "- 1" "JObj [(''query'', JObj [(''bool'', JObj [(''must'', JList [])])])]" example_fromisoformat]
    by simp
qed

section \<open>Properties of the routes\<close>

lemma route_deviations_searched:
  assumes "get_opensearch_client connect cfg = (evs, Inr client)"
    and "Searched call \<in> set (fst (route_deviations connect cfg f q))"
  shows "Query_int ''size'' 10 (Some 1) (Some 100) (q_size q) = Inr (search_size call)
       \<and> Query_int ''from'' 0 None None (q_from q) = Inr (search_from call)"
proof -
  have evs: "Searched call \<notin> set evs"
    using client_ok_events [OF assms(1)] by simp
  from route_deviations_cases [of q] show ?thesis
  proof
    assume "\<exists>st en sz fr.
           Query_datetime ''start_time'' (q_start_time q) = Inr st
         \<and> Query_datetime ''end_time'' (q_end_time q) = Inr en
         \<and> Query_int ''size'' 10 (Some 1) (Some 100) (q_size q) = Inr sz
         \<and> Query_int ''from'' 0 None None (q_from q) = Inr fr"
    then obtain st en sz fr where
      a: "Query_datetime ''start_time'' (q_start_time q) = Inr st"
         "Query_datetime ''end_time'' (q_end_time q) = Inr en"
         "Query_int ''size'' 10 (Some 1) (Some 100) (q_size q) = Inr sz"
         "Query_int ''from'' 0 None None (q_from q) = Inr fr"
      by blast
    have "Searched call \<in> set (fst (get_deviations f client (q_camera_name q) (q_event_type q)
                                      (q_camera_type q) st en sz fr))"
      using assms(2) evs route_deviations_accepted [OF assms(1) a, of f] by simp
    from get_deviations_searched [OF this] show ?thesis
      using a by simp
  next
    assume "errors_of (Query_datetime ''start_time'' (q_start_time q))
         @ errors_of (Query_datetime ''end_time'' (q_end_time q))
         @ errors_of (Query_int ''size'' 10 (Some 1) (Some 100) (q_size q))
         @ errors_of (Query_int ''from'' 0 None None (q_from q)) \<noteq> []"
    from route_deviations_refused [OF assms(1) this, of f] have False
      using assms(2) evs by simp
    then show ?thesis ..
  qed
qed

lemma route_deviations_errors:
  assumes "get_opensearch_client connect cfg = (evs, Inr client)"
    and "snd (route_deviations connect cfg f q) = RequestValidationError errs"
  shows "errs = errors_of (Query_datetime ''start_time'' (q_start_time q))
         @ errors_of (Query_datetime ''end_time'' (q_end_time q))
         @ errors_of (Query_int ''size'' 10 (Some 1) (Some 100) (q_size q))
         @ errors_of (Query_int ''from'' 0 None None (q_from q))"
proof -
  from route_deviations_cases [of q] show ?thesis
  proof
    assume "\<exists>st en sz fr.
           Query_datetime ''start_time'' (q_start_time q) = Inr st
         \<and> Query_datetime ''end_time'' (q_end_time q) = Inr en
         \<and> Query_int ''size'' 10 (Some 1) (Some 100) (q_size q) = Inr sz
         \<and> Query_int ''from'' 0 None None (q_from q) = Inr fr"
    then obtain st en sz fr where
      a: "Query_datetime ''start_time'' (q_start_time q) = Inr st"
         "Query_datetime ''end_time'' (q_end_time q) = Inr en"
         "Query_int ''size'' 10 (Some 1) (Some 100) (q_size q) = Inr sz"
         "Query_int ''from'' 0 None None (q_from q) = Inr fr"
      by blast
    have "snd (route_deviations connect cfg f q) \<noteq> RequestValidationError errs"
      using route_deviations_accepted [OF assms(1) a, of f]
      by (auto simp: respond_def split: sum.splits raised.splits)
    with assms(2) show ?thesis by simp
  next
    assume "errors_of (Query_datetime ''start_time'' (q_start_time q))
         @ errors_of (Query_datetime ''end_time'' (q_end_time q))
         @ errors_of (Query_int ''size'' 10 (Some 1) (Some 100) (q_size q))
         @ errors_of (Query_int ''from'' 0 None None (q_from q)) \<noteq> []"
    from route_deviations_refused [OF assms(1) this, of f] show ?thesis
      using assms(2) by simp
  qed
qed

text \<open>
  C5, as the code has it. Once the client is obtained, a \<open>size\<close> that does not coerce to
  an integer, or that is below 1 or above 100, ends the request as the framework's
  request-validation error, status 422, which names the query parameter \<open>size\<close>; nothing
  has happened but the construction and the ping of the client. A \<open>size\<close> from 1 to 100
  is never among the parameters reported, and it is the size of every search the request
  dispatches.
\<close>

theorem C5_size_bounds:
  assumes "get_opensearch_client connect cfg = (evs, Inr client)"
  shows "(q_size q = Uncoercible raw \<or> (q_size q = Coerced n \<and> (n < 1 \<or> 100 < n)) \<longrightarrow>
            (\<exists>errs. route_deviations connect cfg f q = (evs, RequestValidationError errs)
                     \<and> [''query'', ''size''] \<in> set errs)
            \<and> status_code (snd (route_deviations connect cfg f q)) = 422)
       \<and> (q_size q = Coerced n \<and> 1 \<le> n \<and> n \<le> 100 \<longrightarrow>
            (\<forall>errs. snd (route_deviations connect cfg f q) = RequestValidationError errs
                     \<longrightarrow> [''query'', ''size''] \<notin> set errs)
            \<and> (\<forall>call. Searched call \<in> set (fst (route_deviations connect cfg f q))
                     \<longrightarrow> search_size call = n))"
proof (intro conjI impI allI)
  assume bad: "q_size q = Uncoercible raw \<or> (q_size q = Coerced n \<and> (n < 1 \<or> 100 < n))"
  then have sz: "errors_of (Query_int ''size'' 10 (Some 1) (Some 100) (q_size q)) = [[''query'', ''size'']]"
    by (auto simp: Query_int_def errors_of_def)
  then have ne: "errors_of (Query_datetime ''start_time'' (q_start_time q))
         @ errors_of (Query_datetime ''end_time'' (q_end_time q))
         @ errors_of (Query_int ''size'' 10 (Some 1) (Some 100) (q_size q))
         @ errors_of (Query_int ''from'' 0 None None (q_from q)) \<noteq> []"
    by simp
  from route_deviations_refused [OF assms ne, of f] sz
  show "\<exists>errs. route_deviations connect cfg f q = (evs, RequestValidationError errs)
                     \<and> [''query'', ''size''] \<in> set errs"
    by simp
  from route_deviations_refused [OF assms ne, of f]
  show "status_code (snd (route_deviations connect cfg f q)) = 422"
    by simp
next
  fix errs
  assume ok: "q_size q = Coerced n \<and> 1 \<le> n \<and> n \<le> 100"
    and r: "snd (route_deviations connect cfg f q) = RequestValidationError errs"
  have "[''query'', ''size''] \<notin> set (errors_of (Query_datetime ''start_time'' (q_start_time q))
         @ errors_of (Query_datetime ''end_time'' (q_end_time q))
         @ errors_of (Query_int ''size'' 10 (Some 1) (Some 100) (q_size q))
         @ errors_of (Query_int ''from'' 0 None None (q_from q)))"
    using ok by (auto simp: Query_int_def Query_datetime_def errors_of_def split: query_value.splits)
  then show "[''query'', ''size''] \<notin> set errs"
    using route_deviations_errors [OF assms r] by simp
next
  fix call
  assume ok: "q_size q = Coerced n \<and> 1 \<le> n \<and> n \<le> 100"
    and s: "Searched call \<in> set (fst (route_deviations connect cfg f q))"
  from route_deviations_searched [OF assms s] ok
  show "search_size call = n"
    by (simp add: Query_int_def)
qed

lemma example_events:
  "fst (get_opensearch_client example_connect example_settings) =
     [Constructed \<lparr>hosts = [(''localhost'', 9200)], http_auth = (Some ''admin'', Some ''admin''),
                    use_ssl = False, verify_certs = False\<rparr>, Pinged]"
  by (simp add: example_client_ok)

theorem C5_size_bounds_witness:
  "get_opensearch_client example_connect example_settings =
     ([Constructed \<lparr>hosts = [(''localhost'', 9200)], http_auth = (Some ''admin'', Some ''admin''),
                    use_ssl = False, verify_certs = False\<rparr>, Pinged], Inr example_client)
   \<and> q_size (empty_query\<lparr>q_size := Coerced 101\<rparr>) = Coerced 101 \<and> (100::int) < 101
   \<and> status_code (snd (route_deviations example_connect example_settings example_fromisoformat
                          (empty_query\<lparr>q_size := Coerced 101\<rparr>))) = 422
   \<and> q_size (empty_query\<lparr>q_size := Coerced 100\<rparr>) = Coerced 100 \<and> (1::int) \<le> 100
   \<and> route_deviations example_connect example_settings example_fromisoformat
          (empty_query\<lparr>q_size := Coerced 100\<rparr>)
       = ([Constructed \<lparr>hosts = [(''localhost'', 9200)], http_auth = (Some ''admin'', Some ''admin''),
                        use_ssl = False, verify_certs = False\<rparr>, Pinged,
           Searched \<lparr>search_index = ''deviations'',
                     search_body = JObj [(''query'', JObj [(''bool'', JObj [(''must'', JList [])])])],
                     search_size = 100, search_from = 0\<rparr>],
          JSONResponse 200 (JObj [(''deviations'', JList [example_record])]))
   \<and> route_deviations example_connect example_settings example_fromisoformat
          (empty_query\<lparr>q_size := Coerced 1\<rparr>)
       = ([Constructed \<lparr>hosts = [(''localhost'', 9200)], http_auth = (Some ''admin'', Some ''admin''),
                        use_ssl = False, verify_certs = False\<rparr>, Pinged,
           Searched \<lparr>search_index = ''deviations'',
                     search_body = JObj [(''query'', JObj [(''bool'', JObj [(''must'', JList [])])])],
                     search_size = 1, search_from = 0\<rparr>],
          JSONResponse 200 (JObj [(''deviations'', JList [example_record])]))"
proof -
  have a: "status_code (snd (route_deviations example_connect example_settings example_fromisoformat
                          (empty_query\<lparr>q_size := Coerced 101\<rparr>))) = 422"
    using C5_size_bounds [OF example_client_ok, of "empty_query\<lparr>q_size := Coerced 101\<rparr>" _ 101
            example_fromisoformat]
    by (simp add: empty_query_def)
  have c: "route_deviations example_connect example_settings example_fromisoformat
          (empty_query\<lparr>q_size := Coerced n\<rparr>)
       = ([Constructed \<lparr>hosts = [(''localhost'', 9200)], http_auth = (Some ''admin'', Some ''admin''),
                        use_ssl = False, verify_certs = False\<rparr>, Pinged,
           Searched \<lparr>search_index = ''deviations'',
                     search_body = JObj [(''query'', JObj [(''bool'', JObj [(''must'', JList [])])])],
                     search_size = n, search_from = 0\<rparr>],
          JSONResponse 200 (JObj [(''deviations'', JList [example_record])]))"
    if "1 \<le> n" "n \<le> 100" for n
    using that
    by (simp add: route_deviations_def example_client_ok empty_query_def Query_int_def
        Query_datetime_def get_deviations_def get_deviations_try_def init_typed build_query_def
        time_filter_def term_filters_def append_term_def bool_query_def example_client_def
        read_hits_def respond_def example_record_def)
  show ?thesis
    using a c [of 100] c [of 1] example_client_ok by (simp add: empty_query_def)
qed

theorem C5_size_status_counterexample:
  "status_code (snd (route_deviations example_connect example_settings example_fromisoformat
                       (empty_query\<lparr>q_size := Coerced 0\<rparr>))) = 422
   \<and> status_code (snd (route_deviations example_connect example_settings example_fromisoformat
                       (empty_query\<lparr>q_size := Coerced 101\<rparr>))) = 422
   \<and> status_code (snd (route_deviations example_connect example_settings example_fromisoformat
                       (empty_query\<lparr>q_size := Coerced (- 1)\<rparr>))) = 422
   \<and> status_code (snd (route_deviations example_connect example_settings example_fromisoformat
                       (empty_query\<lparr>q_size := Uncoercible ''abc''\<rparr>))) = 422
   \<and> (422::nat) \<noteq> 400"
  by (simp add: route_deviations_def example_client_ok empty_query_def Query_int_def
        Query_datetime_def errors_of_def)

text \<open>
  C6, as the code has it. Once the client is obtained, an integer \<open>from\<close>, negative or
  not, is never among the parameters reported, and it is the offset of every search the
  request dispatches; with no other parameter set, the search is dispatched with it. A
  \<open>from\<close> that does not coerce to an integer ends the request as the request-validation
  error, which names the query parameter \<open>from\<close>.
\<close>

theorem C6_offset_unbounded:
  assumes "get_opensearch_client connect cfg = (evs, Inr client)"
  shows "(q_from q = Coerced k \<longrightarrow>
            (\<forall>errs. snd (route_deviations connect cfg f q) = RequestValidationError errs
                     \<longrightarrow> [''query'', ''from''] \<notin> set errs)
            \<and> (\<forall>call. Searched call \<in> set (fst (route_deviations connect cfg f q))
                     \<longrightarrow> search_from call = k))
       \<and> (\<exists>rest resp.
            route_deviations connect cfg f
              \<lparr>q_camera_name = None, q_event_type = None, q_camera_type = None,
               q_start_time = Absent, q_end_time = Absent, q_size = Absent, q_from = Coerced k\<rparr>
              = (evs @ Searched \<lparr>search_index = ''deviations'',
                                 search_body = JObj [(''query'', JObj [(''bool'', JObj [(''must'', JList [])])])],
                                 search_size = 10, search_from = k\<rparr> # rest, resp))
       \<and> (q_from q = Uncoercible raw \<longrightarrow>
            (\<exists>errs. route_deviations connect cfg f q = (evs, RequestValidationError errs)
                     \<and> [''query'', ''from''] \<in> set errs))"
proof (intro conjI impI allI)
  fix errs
  assume ok: "q_from q = Coerced k"
    and r: "snd (route_deviations connect cfg f q) = RequestValidationError errs"
  have "[''query'', ''from''] \<notin> set (errors_of (Query_datetime ''start_time'' (q_start_time q))
         @ errors_of (Query_datetime ''end_time'' (q_end_time q))
         @ errors_of (Query_int ''size'' 10 (Some 1) (Some 100) (q_size q))
         @ errors_of (Query_int ''from'' 0 None None (q_from q)))"
    using ok by (auto simp: Query_int_def Query_datetime_def errors_of_def split: query_value.splits)
  then show "[''query'', ''from''] \<notin> set errs"
    using route_deviations_errors [OF assms r] by simp
next
  fix call
  assume ok: "q_from q = Coerced k"
    and s: "Searched call \<in> set (fst (route_deviations connect cfg f q))"
  from route_deviations_searched [OF assms s] ok
  show "search_from call = k"
    by (simp add: Query_int_def)
next
  let ?q = "\<lparr>q_camera_name = None, q_event_type = None, q_camera_type = None,
               q_start_time = Absent, q_end_time = Absent, q_size = Absent, q_from = Coerced k\<rparr>"
  let ?doc = "JObj [(''query'', JObj [(''bool'', JObj [(''must'', JList [])])])]"
  have b: "build_query \<lparr>camera_name = None, event_type = None, camera_type = None,
                      start_time = None, end_time = None, size_param = 10, from_param = k\<rparr>
           = Inr ?doc"
    by (simp add: build_query_def time_filter_def term_filters_def append_term_def bool_query_def)
  from get_deviations_dispatched [OF b, of f client]
  obtain rest r where
    g: "get_deviations f client None None None None None 10 k =
          (Searched \<lparr>search_index = ''deviations'', search_body = ?doc,
                     search_size = 10, search_from = k\<rparr> # rest, r)"
    by blast
  have "route_deviations connect cfg f ?q =
      (evs @ Searched \<lparr>search_index = ''deviations'', search_body = ?doc,
                        search_size = 10, search_from = k\<rparr> # rest, respond Dict_str_List_Dict_str_Any r)"
    using route_deviations_accepted [OF assms, of ?q None None 10 k f] g
    by (simp add: Query_datetime_def Query_int_def)
  then show "\<exists>rest resp. route_deviations connect cfg f ?q =
      (evs @ Searched \<lparr>search_index = ''deviations'', search_body = ?doc,
                        search_size = 10, search_from = k\<rparr> # rest, resp)"
    by blast
next
  assume bad: "q_from q = Uncoercible raw"
  then have fr: "errors_of (Query_int ''from'' 0 None None (q_from q)) = [[''query'', ''from'']]"
    by (simp add: Query_int_def errors_of_def)
  then have ne: "errors_of (Query_datetime ''start_time'' (q_start_time q))
         @ errors_of (Query_datetime ''end_time'' (q_end_time q))
         @ errors_of (Query_int ''size'' 10 (Some 1) (Some 100) (q_size q))
         @ errors_of (Query_int ''from'' 0 None None (q_from q)) \<noteq> []"
    by simp
  from route_deviations_refused [OF assms ne, of f] fr
  show "\<exists>errs. route_deviations connect cfg f q = (evs, RequestValidationError errs)
                     \<and> [''query'', ''from''] \<in> set errs"
    by simp
qed

theorem C6_negative_offset_counterexample:
  "route_deviations example_connect example_settings example_fromisoformat
     (empty_query\<lparr>q_from := Coerced (- 1)\<rparr>)
   = ([Constructed \<lparr>hosts = [(''localhost'', 9200)], http_auth = (Some ''admin'', Some ''admin''),
                    use_ssl = False, verify_certs = False\<rparr>, Pinged,
       Searched \<lparr>search_index = ''deviations'',
                 search_body = JObj [(''query'', JObj [(''bool'', JObj [(''must'', JList [])])])],
                 search_size = 10, search_from = - 1\<rparr>,
       Logged ''Erro ao consultar OpenSearch: [from] parameter cannot be negative''],
      JSONResponse 500
        (JObj [(''detail'', JStr ''Erro ao consultar OpenSearch: [from] parameter cannot be negative'')]))"
  by (simp add: route_deviations_def example_client_ok empty_query_def Query_int_def
        Query_datetime_def get_deviations_def get_deviations_try_def init_typed build_query_def
        time_filter_def term_filters_def append_term_def bool_query_def example_client_def
        msg_search_error_def respond_def)

theorem C6_offset_unbounded_witness:
  "get_opensearch_client example_connect example_settings =
     ([Constructed \<lparr>hosts = [(''localhost'', 9200)], http_auth = (Some ''admin'', Some ''admin''),
                    use_ssl = False, verify_certs = False\<rparr>, Pinged], Inr example_client)
   \<and> (\<exists>rest resp.
        route_deviations example_connect example_settings example_fromisoformat
          (empty_query\<lparr>q_from := Coerced (- 1)\<rparr>)
          = ([Constructed \<lparr>hosts = [(''localhost'', 9200)], http_auth = (Some ''admin'', Some ''admin''),
                           use_ssl = False, verify_certs = False\<rparr>, Pinged,
              Searched \<lparr>search_index = ''deviations'',
                        search_body = JObj [(''query'', JObj [(''bool'', JObj [(''must'', JList [])])])],
                        search_size = 10, search_from = - 1\<rparr>] @ rest, resp))
   \<and> q_from (empty_query\<lparr>q_from := Uncoercible ''ten''\<rparr>) = Uncoercible ''ten''
   \<and> (\<exists>errs. route_deviations example_connect example_settings example_fromisoformat
                 (empty_query\<lparr>q_from := Uncoercible ''ten''\<rparr>)
               = ([Constructed \<lparr>hosts = [(''localhost'', 9200)], http_auth = (Some ''admin'', Some ''admin''),
                                use_ssl = False, verify_certs = False\<rparr>, Pinged],
                  RequestValidationError errs)
            \<and> [''query'', ''from''] \<in> set errs)"
  using C6_offset_unbounded [OF example_client_ok, of _ "- 1" example_fromisoformat]
        C6_offset_unbounded [OF example_client_ok, of "empty_query\<lparr>q_from := Uncoercible ''ten''\<rparr>" _
            example_fromisoformat "''ten''"]
        example_client_ok
  by (simp add: empty_query_def)

text \<open>
  C7, as the code has it. Once the client is obtained, a \<open>start_time\<close> or \<open>end_time\<close>
  that does not coerce to a \<open>datetime\<close> ends the request as the framework's
  request-validation error, status 422, which names the parameter; a time that coerces is
  never among the parameters reported. The validator of the model, handed a string that
  \<open>fromisoformat\<close> rejects, raises ValueError with its one fixed message, which holds
  neither the name of the field nor the string; handed a string that parses, it returns
  the parsed \<open>datetime\<close>, which the field accepts.
\<close>

theorem C7_date_format:
  assumes "get_opensearch_client connect cfg = (evs, Inr client)"
  shows "(q_start_time q = Uncoercible raw \<longrightarrow>
            (\<exists>errs. route_deviations connect cfg f q = (evs, RequestValidationError errs)
                     \<and> [''query'', ''start_time''] \<in> set errs)
            \<and> status_code (snd (route_deviations connect cfg f q)) = 422)
       \<and> (q_end_time q = Uncoercible raw \<longrightarrow>
            (\<exists>errs. route_deviations connect cfg f q = (evs, RequestValidationError errs)
                     \<and> [''query'', ''end_time''] \<in> set errs)
            \<and> status_code (snd (route_deviations connect cfg f q)) = 422)
       \<and> (q_start_time q = Coerced t \<longrightarrow>
            (\<forall>errs. snd (route_deviations connect cfg f q) = RequestValidationError errs
                     \<longrightarrow> [''query'', ''start_time''] \<notin> set errs))
       \<and> (q_end_time q = Coerced t \<longrightarrow>
            (\<forall>errs. snd (route_deviations connect cfg f q) = RequestValidationError errs
                     \<longrightarrow> [''query'', ''end_time''] \<notin> set errs))
       \<and> (f s = None \<longrightarrow>
            parse_datetime f (TimeStr s)
              = Inl (PyException ''ValueError''
                       (''Formato de data inv'' @ [CHR 0xE1]
                          @ ''lido. Use o formato ISO 8601 (YYYY-MM-DDTHH:MM:SS).'')))
       \<and> (f s = Some t \<longrightarrow>
            parse_datetime f (TimeStr s) = Inr (Some t)
            \<and> validate_time f field (TimeStr s) = Inr (Some t))"
proof (intro conjI impI allI)
  assume bad: "q_start_time q = Uncoercible raw"
  then have st: "errors_of (Query_datetime ''start_time'' (q_start_time q)) = [[''query'', ''start_time'']]"
    by (simp add: Query_datetime_def errors_of_def)
  then have ne: "errors_of (Query_datetime ''start_time'' (q_start_time q))
         @ errors_of (Query_datetime ''end_time'' (q_end_time q))
         @ errors_of (Query_int ''size'' 10 (Some 1) (Some 100) (q_size q))
         @ errors_of (Query_int ''from'' 0 None None (q_from q)) \<noteq> []"
    by simp
  from route_deviations_refused [OF assms ne, of f] st
  show "\<exists>errs. route_deviations connect cfg f q = (evs, RequestValidationError errs)
                     \<and> [''query'', ''start_time''] \<in> set errs"
    by simp
  from route_deviations_refused [OF assms ne, of f]
  show "status_code (snd (route_deviations connect cfg f q)) = 422"
    by simp
next
  assume bad: "q_end_time q = Uncoercible raw"
  then have en: "errors_of (Query_datetime ''end_time'' (q_end_time q)) = [[''query'', ''end_time'']]"
    by (simp add: Query_datetime_def errors_of_def)
  then have ne: "errors_of (Query_datetime ''start_time'' (q_start_time q))
         @ errors_of (Query_datetime ''end_time'' (q_end_time q))
         @ errors_of (Query_int ''size'' 10 (Some 1) (Some 100) (q_size q))
         @ errors_of (Query_int ''from'' 0 None None (q_from q)) \<noteq> []"
    by simp
  from route_deviations_refused [OF assms ne, of f] en
  show "\<exists>errs. route_deviations connect cfg f q = (evs, RequestValidationError errs)
                     \<and> [''query'', ''end_time''] \<in> set errs"
    by simp
  from route_deviations_refused [OF assms ne, of f]
  show "status_code (snd (route_deviations connect cfg f q)) = 422"
    by simp
next
  fix errs
  assume ok: "q_start_time q = Coerced t"
    and r: "snd (route_deviations connect cfg f q) = RequestValidationError errs"
  have "[''query'', ''start_time''] \<notin> set (errors_of (Query_datetime ''start_time'' (q_start_time q))
         @ errors_of (Query_datetime ''end_time'' (q_end_time q))
         @ errors_of (Query_int ''size'' 10 (Some 1) (Some 100) (q_size q))
         @ errors_of (Query_int ''from'' 0 None None (q_from q)))"
    using ok by (auto simp: Query_int_def Query_datetime_def errors_of_def split: query_value.splits)
  then show "[''query'', ''start_time''] \<notin> set errs"
    using route_deviations_errors [OF assms r] by simp
next
  fix errs
  assume ok: "q_end_time q = Coerced t"
    and r: "snd (route_deviations connect cfg f q) = RequestValidationError errs"
  have "[''query'', ''end_time''] \<notin> set (errors_of (Query_datetime ''start_time'' (q_start_time q))
         @ errors_of (Query_datetime ''end_time'' (q_end_time q))
         @ errors_of (Query_int ''size'' 10 (Some 1) (Some 100) (q_size q))
         @ errors_of (Query_int ''from'' 0 None None (q_from q)))"
    using ok by (auto simp: Query_int_def Query_datetime_def errors_of_def split: query_value.splits)
  then show "[''query'', ''end_time''] \<notin> set errs"
    using route_deviations_errors [OF assms r] by simp
next
  assume "f s = None"
  then show "parse_datetime f (TimeStr s)
              = Inl (PyException ''ValueError''
                       (''Formato de data inv'' @ [CHR 0xE1]
                          @ ''lido. Use o formato ISO 8601 (YYYY-MM-DDTHH:MM:SS).''))"
    by (simp add: parse_datetime_def ValueError_def msg_invalid_date_def)
next
  assume "f s = Some t"
  then show "parse_datetime f (TimeStr s) = Inr (Some t)"
    by (simp add: parse_datetime_def)
next
  assume "f s = Some t"
  then show "validate_time f field (TimeStr s) = Inr (Some t)"
    by (simp add: validate_time_def parse_datetime_def)
qed

theorem C7_date_format_counterexample:
  "status_code (snd (route_deviations example_connect example_settings example_fromisoformat
                       (empty_query\<lparr>q_start_time := Uncoercible ''not-a-date''\<rparr>))) = 422
   \<and> (422::nat) \<noteq> 400
   \<and> parse_datetime example_fromisoformat (TimeStr ''not-a-date'')
       = Inl (PyException ''ValueError''
                (''Formato de data inv'' @ [CHR 0xE1]
                   @ ''lido. Use o formato ISO 8601 (YYYY-MM-DDTHH:MM:SS).''))"
  by (simp add: route_deviations_def example_client_ok empty_query_def Query_int_def
        Query_datetime_def errors_of_def parse_datetime_def ValueError_def msg_invalid_date_def
        example_fromisoformat_def)

theorem C7_date_format_witness:
  "get_opensearch_client example_connect example_settings =
     ([Constructed \<lparr>hosts = [(''localhost'', 9200)], http_auth = (Some ''admin'', Some ''admin''),
                    use_ssl = False, verify_certs = False\<rparr>, Pinged], Inr example_client)
   \<and> q_start_time (empty_query\<lparr>q_start_time := Uncoercible ''not-a-date''\<rparr>) = Uncoercible ''not-a-date''
   \<and> status_code (snd (route_deviations example_connect example_settings example_fromisoformat
                       (empty_query\<lparr>q_start_time := Uncoercible ''not-a-date''\<rparr>))) = 422
   \<and> q_end_time (empty_query\<lparr>q_end_time := Uncoercible ''2023-13-01''\<rparr>) = Uncoercible ''2023-13-01''
   \<and> status_code (snd (route_deviations example_connect example_settings example_fromisoformat
                       (empty_query\<lparr>q_end_time := Uncoercible ''2023-13-01''\<rparr>))) = 422
   \<and> example_fromisoformat ''not-a-date'' = None
   \<and> parse_datetime example_fromisoformat (TimeStr ''not-a-date'')
       = Inl (PyException ''ValueError''
                (''Formato de data inv'' @ [CHR 0xE1]
                   @ ''lido. Use o formato ISO 8601 (YYYY-MM-DDTHH:MM:SS).''))
   \<and> example_fromisoformat ''2023-10-01T00:00:00'' = Some example_start
   \<and> validate_time example_fromisoformat ''start_time'' (TimeStr ''2023-10-01T00:00:00'')
       = Inr (Some example_start)"
  using C7_date_format [OF example_client_ok,
          of "empty_query\<lparr>q_start_time := Uncoercible ''not-a-date''\<rparr>" "''not-a-date''"
             example_fromisoformat _ "''not-a-date''"]
        C7_date_format [OF example_client_ok,
          of "empty_query\<lparr>q_end_time := Uncoercible ''2023-13-01''\<rparr>" "''2023-13-01''"
             example_fromisoformat example_start "''2023-10-01T00:00:00''" "''start_time''"]
        example_client_ok
  by (simp add: empty_query_def example_fromisoformat_def)

section \<open>Properties of the process\<close>

lemma get_deviation_by_id_events:
  "ev \<in> set (fst (get_deviation_by_id client deviation_id)) \<Longrightarrow>
     \<not> is_construction ev \<and> \<not> is_ping ev"
  by (auto simp: get_deviation_by_id_def Let_def split: sum.splits)

lemma health_check_events:
  "ev \<in> set (fst (health_check client)) \<Longrightarrow> \<not> is_construction ev \<and> \<not> is_ping ev"
  by (auto simp: health_check_def Let_def split: sum.splits)

lemma filter_none: "(\<And>x. x \<in> set xs \<Longrightarrow> \<not> P x) \<Longrightarrow> filter P xs = []"
  by (induction xs) auto

lemma route_deviations_handles:
  "length (filter is_construction (fst (route_deviations connect cfg f q))) = 1
   \<and> length (filter is_ping (fst (route_deviations connect cfg f q))) = 1"
proof (cases "get_opensearch_client connect cfg")
  case (Pair evs res)
  note evs = client_ok_events [OF Pair]
  show ?thesis
  proof (cases res)
    case (Inl r)
    with Pair have "fst (route_deviations connect cfg f q) = evs"
      by (simp add: route_deviations_def)
    then show ?thesis by (simp add: evs)
  next
    case (Inr client)
    with Pair have c: "get_opensearch_client connect cfg = (evs, Inr client)"
      by simp
    from route_deviations_cases [of q] show ?thesis
    proof
      assume "\<exists>st en sz fr.
             Query_datetime ''start_time'' (q_start_time q) = Inr st
           \<and> Query_datetime ''end_time'' (q_end_time q) = Inr en
           \<and> Query_int ''size'' 10 (Some 1) (Some 100) (q_size q) = Inr sz
           \<and> Query_int ''from'' 0 None None (q_from q) = Inr fr"
      then obtain st en sz fr where
        a: "Query_datetime ''start_time'' (q_start_time q) = Inr st"
           "Query_datetime ''end_time'' (q_end_time q) = Inr en"
           "Query_int ''size'' 10 (Some 1) (Some 100) (q_size q) = Inr sz"
           "Query_int ''from'' 0 None None (q_from q) = Inr fr"
        by blast
      let ?h = "fst (get_deviations f client (q_camera_name q) (q_event_type q) (q_camera_type q) st en sz fr)"
      have "filter is_construction ?h = []" "filter is_ping ?h = []"
        using get_deviations_events by (auto intro: filter_none)
      then show ?thesis
        using route_deviations_accepted [OF c a, of f] by (simp add: evs)
    next
      assume "errors_of (Query_datetime ''start_time'' (q_start_time q))
           @ errors_of (Query_datetime ''end_time'' (q_end_time q))
           @ errors_of (Query_int ''size'' 10 (Some 1) (Some 100) (q_size q))
           @ errors_of (Query_int ''from'' 0 None None (q_from q)) \<noteq> []"
      from route_deviations_refused [OF c this, of f] show ?thesis
        by (simp add: evs)
    qed
  qed
qed

lemma route_deviation_by_id_handles:
  "length (filter is_construction (fst (route_deviation_by_id connect cfg deviation_id))) = 1
   \<and> length (filter is_ping (fst (route_deviation_by_id connect cfg deviation_id))) = 1"
proof (cases "get_opensearch_client connect cfg")
  case (Pair evs res)
  note evs = client_ok_events [OF Pair]
  show ?thesis
  proof (cases res)
    case (Inl r)
    with Pair have "fst (route_deviation_by_id connect cfg deviation_id) = evs"
      by (simp add: route_deviation_by_id_def)
    then show ?thesis by (simp add: evs)
  next
    case (Inr client)
    let ?h = "fst (get_deviation_by_id client deviation_id)"
    have h: "filter is_construction ?h = []" "filter is_ping ?h = []"
      using get_deviation_by_id_events by (auto intro: filter_none)
    from Inr Pair have "fst (route_deviation_by_id connect cfg deviation_id) = evs @ ?h"
      by (simp add: route_deviation_by_id_def split: prod.splits)
    then show ?thesis using h by (simp add: evs)
  qed
qed

lemma route_health_handles:
  "length (filter is_construction (fst (route_health connect cfg))) = 1
   \<and> length (filter is_ping (fst (route_health connect cfg))) = 1"
proof (cases "get_opensearch_client connect cfg")
  case (Pair evs res)
  note evs = client_ok_events [OF Pair]
  show ?thesis
  proof (cases res)
    case (Inl r)
    with Pair have "fst (route_health connect cfg) = evs"
      by (simp add: route_health_def)
    then show ?thesis by (simp add: evs)
  next
    case (Inr client)
    let ?h = "fst (health_check client)"
    have h: "filter is_construction ?h = []" "filter is_ping ?h = []"
      using health_check_events by (auto intro: filter_none)
    from Inr Pair have "fst (route_health connect cfg) = evs @ ?h"
      by (simp add: route_health_def split: prod.splits)
    then show ?thesis using h by (simp add: evs)
  qed
qed

lemma serve_handles:
  "length (filter is_construction (fst (serve connect cfg f req))) = 1
   \<and> length (filter is_ping (fst (serve connect cfg f req))) = 1"
  by (cases req)
     (simp_all add: serve_def route_deviations_handles route_deviation_by_id_handles route_health_handles)

text \<open>
  C9, as the code has it. Loading the module constructs no client. Every request
  constructs one client and pings it once: a process that has served \<open>n\<close> requests has
  constructed \<open>n\<close> clients.
\<close>

theorem C9_handle_per_request:
  "filter is_construction module_load = []
   \<and> length (filter is_construction (process_events connect cfg f reqs)) = length reqs
   \<and> length (filter is_ping (process_events connect cfg f reqs)) = length reqs"
proof -
  have "length (filter is_construction (serve_all connect cfg f reqs)) = length reqs
        \<and> length (filter is_ping (serve_all connect cfg f reqs)) = length reqs"
    by (induction reqs) (simp_all add: serve_handles)
  then show ?thesis
    by (simp add: process_events_def module_load_def)
qed

theorem C9_two_requests_counterexample:
  "filter is_construction module_load = []
   \<and> length (filter is_construction
        (process_events example_connect example_settings example_fromisoformat
           [GetHealth, GetDeviationById ''12345''])) = 2"
  by (simp add: process_events_def module_load_def serve_def route_health_def
        route_deviation_by_id_def example_client_ok health_check_def get_deviation_by_id_def
        example_client_def)

end
